theory Spec2Isabelle
  imports Complex_Main
begin

section \<open>The VMC sender: motion and expression synthesis\<close>

text \<open>
  A shallow embedding of \<^verbatim>\<open>src/vmc_sender.py\<close>. Python's \<^verbatim>\<open>float\<close> is modelled by
  \<^typ>\<open>real\<close>: \<^verbatim>\<open>math.sin\<close>, \<^verbatim>\<open>math.cos\<close> and \<^verbatim>\<open>math.exp\<close> are the real functions,
  arithmetic is exact, and there is neither rounding nor NaN nor infinity. The conversion
  \<^verbatim>\<open>float(v)\<close> of a value that is a float already is the identity. A Python dictionary
  with string keys is a map from \<^typ>\<open>string\<close> to values; \<^verbatim>\<open>None\<close> for an optional
  argument is \<^term>\<open>None\<close>.
\<close>

subsection \<open>Scalar helpers\<close>

text \<open>\<^verbatim>\<open>def clamp01(value): return max(0.0, min(1.0, float(value)))\<close>\<close>

definition clamp01 :: "real \<Rightarrow> real" where
  "clamp01 v = max 0 (min 1 v)"

text \<open>
  Python's \<^verbatim>\<open>x % y\<close> on floats, for a divisor \<open>y \<noteq> 0\<close>: the remainder takes the sign of
  the divisor, \<open>x - y * floor (x / y)\<close>. The only divisor in the program is the constant
  \<open>3.2\<close>, so the \<^verbatim>\<open>ZeroDivisionError\<close> of \<open>y = 0\<close> cannot occur.
\<close>

definition py_fmod :: "real \<Rightarrow> real \<Rightarrow> real" where
  "py_fmod x y = x - y * of_int \<lfloor>x / y\<rfloor>"

subsection \<open>Quaternion builder\<close>

definition quat_from_euler_xyz :: "real \<Rightarrow> real \<Rightarrow> real \<Rightarrow> real \<times> real \<times> real \<times> real" where
  "quat_from_euler_xyz rx ry rz =
     (let cx = cos (rx / 2); sx = sin (rx / 2);
          cy = cos (ry / 2); sy = sin (ry / 2);
          cz = cos (rz / 2); sz = sin (rz / 2);
          qw = cx * cy * cz - sx * sy * sz;
          qx = sx * cy * cz + cx * sy * sz;
          qy = cx * sy * cz - sx * cy * sz;
          qz = cx * cy * sz + sx * sy * cz
      in (qx, qy, qz, qw))"

text \<open>The squared Euclidean norm of a quaternion \<open>(x, y, z, w)\<close>.\<close>

fun quat_norm2 :: "real \<times> real \<times> real \<times> real \<Rightarrow> real" where
  "quat_norm2 (x, y, z, w) = x\<^sup>2 + y\<^sup>2 + z\<^sup>2 + w\<^sup>2"

subsection \<open>The transport and the protocol messages\<close>

text \<open>
  An OSC message is an address and its arguments. The UDP clients are modelled by the
  sequence of messages handed to them: \<^verbatim>\<open>DualClient.send\<close> appends to the primary
  client and, when a mirror is configured, to the mirror.
\<close>

datatype osc_arg = OscInt int | OscFloat real | OscStr string

type_synonym osc_message = "string \<times> osc_arg list"

record DualClient =
  primary :: "osc_message list"
  mirror :: "osc_message list option"

definition DualClient_send :: "DualClient \<Rightarrow> string \<Rightarrow> osc_arg list \<Rightarrow> DualClient" where
  "DualClient_send self addr args =
     self\<lparr>primary := primary self @ [(addr, args)],
          mirror := (case mirror self of None \<Rightarrow> None | Some m \<Rightarrow> Some (m @ [(addr, args)]))\<rparr>"

record VMCSender =
  client :: DualClient

definition VMCSender_blend :: "VMCSender \<Rightarrow> string \<Rightarrow> real \<Rightarrow> VMCSender" where
  "VMCSender_blend self name v =
     self\<lparr>client := DualClient_send (client self) ''/VMC/Ext/Blend/Val'' [OscStr name, OscFloat v]\<rparr>"

definition VMCSender_apply :: "VMCSender \<Rightarrow> VMCSender" where
  "VMCSender_apply self =
     self\<lparr>client := DualClient_send (client self) ''/VMC/Ext/Blend/Apply'' []\<rparr>"

subsection \<open>Blend keys and expression presets\<close>

definition EXPRESSION_PRESETS :: "(string \<times> (string \<times> real) list) list" where
  "EXPRESSION_PRESETS =
     [(''neutral'', []),
      (''happy'', [(''Joy'', 1), (''happy'', 1)]),
      (''anger'', [(''Angry'', 1), (''angry'', 1)]),
      (''sad'', [(''Sorrow'', 1), (''sad'', 1)]),
      (''fun'', [(''Fun'', 1), (''relaxed'', 1)]),
      (''surprise'', [(''Surprised'', 1), (''surprised'', 1)])]"

definition BLEND_KEYS_TO_CLEAR :: "string list" where
  "BLEND_KEYS_TO_CLEAR =
     [''Neutral'', ''neutral'', ''Joy'', ''happy'', ''Angry'', ''angry'', ''Sorrow'', ''sad'',
      ''Fun'', ''relaxed'', ''Surprised'', ''surprised'',
      ''Blink'', ''Blink_L'', ''Blink_R'', ''blink'', ''blinkLeft'', ''blinkRight'']"

definition BLINK_KEYS :: "string list" where
  "BLINK_KEYS = [''Blink'', ''Blink_L'', ''Blink_R'', ''blink'', ''blinkLeft'', ''blinkRight'']"

subsection \<open>Idle pose and blink\<close>

text \<open>\<^verbatim>\<open>compute_idle_pose\<close> returns the tuple \<open>(y_root, pitch, yaw, roll)\<close>.\<close>

definition compute_idle_pose :: "real \<Rightarrow> real \<Rightarrow> real \<times> real \<times> real \<times> real" where
  "compute_idle_pose t strength =
     (let s = strength;
          pitch = sin (t * 1.10) * 0.10 * s;
          yaw = sin (t * 0.75) * 0.14 * s;
          roll = sin (t * 0.50) * 0.06 * s;
          y_root = sin (t * 1.30) * 0.01 * s
      in (y_root, pitch, yaw, roll))"

definition compute_blink :: "real \<Rightarrow> real" where
  "compute_blink t =
     (let period = 3.2;
          width = 0.11;
          phase = py_fmod t period
      in if phase < width then (let x = phase / width in 1 - \<bar>x * 2 - 1\<bar>) else 0)"

subsection \<open>The blend update\<close>

text \<open>\<^verbatim>\<open>d.get(key, 0.0)\<close> on a dictionary of floats.\<close>

definition dict_get :: "(string \<rightharpoonup> real) \<Rightarrow> string \<Rightarrow> real" where
  "dict_get d key = (case d key of None \<Rightarrow> 0 | Some v \<Rightarrow> v)"

text \<open>\<^verbatim>\<open>{k: 0.0 for k in BLEND_KEYS_TO_CLEAR}\<close>\<close>

definition zero_dict :: "string \<rightharpoonup> real" where
  "zero_dict = map_of (map (\<lambda>k. (k, 0)) BLEND_KEYS_TO_CLEAR)"

text \<open>\<^verbatim>\<open>EXPRESSION_PRESETS.get(expr, [])\<close>\<close>

definition preset_get :: "string \<Rightarrow> (string \<times> real) list" where
  "preset_get expr = (case map_of EXPRESSION_PRESETS expr of None \<Rightarrow> [] | Some ps \<Rightarrow> ps)"

text \<open>
  Lines 170 and 171: the loop over the pairs of the preset, assigning
  \<^verbatim>\<open>target[name] = float(value) * clamp01(intensity)\<close> in order.
\<close>

fun preset_loop :: "(string \<times> real) list \<Rightarrow> real \<Rightarrow> (string \<rightharpoonup> real) \<Rightarrow> (string \<rightharpoonup> real)" where
  "preset_loop [] intensity target = target"
| "preset_loop ((name, v) # ps) intensity target =
     preset_loop ps intensity (target(name \<mapsto> v * clamp01 intensity))"

text \<open>Lines 174 and 175: the loop over the blink keys, \<^verbatim>\<open>target[key] = b\<close>.\<close>

fun blink_loop :: "string list \<Rightarrow> real \<Rightarrow> (string \<rightharpoonup> real) \<Rightarrow> (string \<rightharpoonup> real)" where
  "blink_loop [] b target = target"
| "blink_loop (key # keys) b target = blink_loop keys b (target(key \<mapsto> b))"

text \<open>
  Lines 165 to 175: the target of the frame. The test \<^verbatim>\<open>if custom_expr_key:\<close> holds
  for a string that is neither \<^verbatim>\<open>None\<close> nor empty.
\<close>

definition blend_target :: "string \<Rightarrow> real \<Rightarrow> real \<Rightarrow> string option \<Rightarrow> (string \<rightharpoonup> real)" where
  "blend_target expr intensity blink custom_expr_key =
     (let target = zero_dict;
          target =
            (case custom_expr_key of
               None \<Rightarrow> preset_loop (preset_get expr) intensity target
             | Some ck \<Rightarrow>
                 if ck \<noteq> [] then target(ck \<mapsto> clamp01 intensity)
                 else preset_loop (preset_get expr) intensity target);
          b = clamp01 blink
      in blink_loop BLINK_KEYS b target)"

text \<open>
  Lines 178 to 182: one pass of the easing loop over the given keys, threading the state
  dictionary and the sender.
\<close>

fun ease_keys ::
  "(string \<rightharpoonup> real) \<Rightarrow> real \<Rightarrow> string list \<Rightarrow> (string \<rightharpoonup> real) \<times> VMCSender
     \<Rightarrow> (string \<rightharpoonup> real) \<times> VMCSender" where
  "ease_keys target a [] (state, vmc) = (state, vmc)"
| "ease_keys target a (key # keys) (state, vmc) =
     (let prev = dict_get state key;
          nxt = prev + (dict_get target key - prev) * a
      in ease_keys target a keys (state(key \<mapsto> nxt), VMCSender_blend vmc key nxt))"

text \<open>
  The function mutates \<^verbatim>\<open>state\<close> and the sender in place and returns \<^verbatim>\<open>state\<close>; the
  model returns both.
\<close>

definition apply_expression_and_blink ::
  "VMCSender \<Rightarrow> string \<Rightarrow> real \<Rightarrow> real \<Rightarrow> string option \<Rightarrow> (string \<rightharpoonup> real) option \<Rightarrow> real
     \<Rightarrow> (string \<rightharpoonup> real) \<times> VMCSender" where
  "apply_expression_and_blink vmc expr intensity blink custom_expr_key state alpha =
     (let state = (case state of None \<Rightarrow> zero_dict | Some s \<Rightarrow> s);
          target = blend_target expr intensity blink custom_expr_key;
          a = clamp01 alpha;
          (state, vmc) = ease_keys target a BLEND_KEYS_TO_CLEAR (state, vmc)
      in (state, VMCSender_apply vmc))"

text \<open>
  A predicate on the state dictionary: every key of \<^verbatim>\<open>BLEND_KEYS_TO_CLEAR\<close> is present
  and its value lies between 0 and 1.
\<close>

definition blend_state_ok :: "(string \<rightharpoonup> real) \<Rightarrow> bool" where
  "blend_state_ok s =
     list_all (\<lambda>k. case s k of None \<Rightarrow> False | Some v \<Rightarrow> 0 \<le> v \<and> v \<le> 1) BLEND_KEYS_TO_CLEAR"

text \<open>
  Lines 270 to 278 over several ticks: the loop passes the dictionary returned by one call
  as \<^verbatim>\<open>state\<close> of the next. A call is its arguments
  \<open>(expr, intensity, blink, custom_expr_key, alpha)\<close>.
\<close>

type_synonym blend_call = "string \<times> real \<times> real \<times> string option \<times> real"

fun run_calls ::
  "VMCSender \<Rightarrow> (string \<rightharpoonup> real) \<Rightarrow> blend_call list \<Rightarrow> (string \<rightharpoonup> real) \<times> VMCSender" where
  "run_calls vmc state [] = (state, vmc)"
| "run_calls vmc state ((e, i, b, ck, al) # cs) =
     (case apply_expression_and_blink vmc e i b ck (Some state) al of
        (state', vmc') \<Rightarrow> run_calls vmc' state' cs)"

subsection \<open>The pose smoother of the transmission loop\<close>







section \<open>Properties\<close>

subsection \<open>Quaternion builder\<close>

lemma quat_norm2_expand:
  fixes cx sx cy sy cz sz :: real
  assumes "sx\<^sup>2 + cx\<^sup>2 = 1" "sy\<^sup>2 + cy\<^sup>2 = 1" "sz\<^sup>2 + cz\<^sup>2 = 1"
  shows "(sx * cy * cz + cx * sy * sz)\<^sup>2 + (cx * sy * cz - sx * cy * sz)\<^sup>2
       + (cx * cy * sz + sx * sy * cz)\<^sup>2 + (cx * cy * cz - sx * sy * sz)\<^sup>2 = 1"
proof -
  have "(sx * cy * cz + cx * sy * sz)\<^sup>2 + (cx * sy * cz - sx * cy * sz)\<^sup>2
       + (cx * cy * sz + sx * sy * cz)\<^sup>2 + (cx * cy * cz - sx * sy * sz)\<^sup>2
       = (sx\<^sup>2 + cx\<^sup>2) * (sy\<^sup>2 + cy\<^sup>2) * (sz\<^sup>2 + cz\<^sup>2)"
    by (simp add: power2_eq_square algebra_simps)
  then show ?thesis
    using assms by simp
qed

subsection \<open>The remainder and the blink oscillator\<close>

lemma py_fmod_small: "0 \<le> x \<Longrightarrow> x < y \<Longrightarrow> py_fmod x y = x"
proof -
  assume a: "0 \<le> x" "x < y"
  then have "\<lfloor>x / y\<rfloor> = 0"
    by (simp add: floor_eq_iff)
  then show ?thesis by (simp add: py_fmod_def)
qed

lemma py_fmod_add: "y \<noteq> 0 \<Longrightarrow> py_fmod (x + y) y = py_fmod x y"
  by (simp add: py_fmod_def add_divide_distrib algebra_simps)

lemma py_fmod_range: "0 < y \<Longrightarrow> 0 \<le> py_fmod x y \<and> py_fmod x y < y"
proof -
  assume y: "0 < y"
  have 1: "of_int \<lfloor>x / y\<rfloor> \<le> x / y" by simp
  have 2: "x / y < of_int \<lfloor>x / y\<rfloor> + 1" by linarith
  have "of_int \<lfloor>x / y\<rfloor> * y \<le> x"
    using 1 y by (simp only: pos_le_divide_eq)
  moreover have "x < (of_int \<lfloor>x / y\<rfloor> + 1) * y"
    using 2 y by (simp only: pos_divide_less_eq)
  ultimately show ?thesis by (simp add: py_fmod_def algebra_simps)
qed

lemma compute_blink_at_0: "compute_blink 0 = 0"
  by (simp add: compute_blink_def py_fmod_def)

lemma compute_blink_at_mid: "compute_blink 0.055 = 1"
  by (simp add: compute_blink_def py_fmod_small)

lemma compute_blink_at_width: "compute_blink 0.11 = 0"
  by (simp add: compute_blink_def py_fmod_small)

lemma compute_blink_at_period: "compute_blink 3.2 = compute_blink 0"
  by (simp add: compute_blink_def py_fmod_def)

lemma compute_blink_range: "0 \<le> compute_blink t \<and> compute_blink t \<le> 1"
proof -
  have r: "0 \<le> py_fmod t 3.2 \<and> py_fmod t 3.2 < 3.2"
    by (rule py_fmod_range) simp
  show ?thesis
    using r unfolding compute_blink_def Let_def
    by (auto simp: abs_le_iff field_simps)
qed

lemma compute_blink_periodic: "compute_blink (t + 3.2) = compute_blink t"
  unfolding compute_blink_def Let_def using py_fmod_add[of "3.2" t] by simp

subsection \<open>The smoothing gain and one smoothing step\<close>










subsection \<open>Targets and easing of the blend update\<close>

lemma distinct_keys: "distinct BLEND_KEYS_TO_CLEAR"
  by (simp add: BLEND_KEYS_TO_CLEAR_def)

lemma dict_get_upd: "dict_get (d(k \<mapsto> v)) k' = (if k' = k then v else dict_get d k')"
  by (simp add: dict_get_def)

lemma ease_keys_state:
  "distinct keys \<Longrightarrow>
   fst (ease_keys tg a keys (st, vmc)) k =
     (if k \<in> set keys then Some (dict_get st k + (dict_get tg k - dict_get st k) * a) else st k)"
proof (induction keys arbitrary: st vmc)
  case Nil
  then show ?case by simp
next
  case (Cons key keys)
  then show ?case by (auto simp: Let_def dict_get_upd)
qed

lemma blink_loop_lookup:
  "blink_loop ks b tg k = (if k \<in> set ks then Some b else tg k)"
  by (induction ks arbitrary: tg) auto

lemma preset_loop_dom:
  "(\<exists>v. tg k = Some v) \<Longrightarrow> \<exists>v. preset_loop ps i tg k = Some v"
  by (induction ps i tg rule: preset_loop.induct) auto

lemma zero_dict_lookup:
  "zero_dict k = (if k \<in> set BLEND_KEYS_TO_CLEAR then Some 0 else None)"
  unfolding zero_dict_def
  by (simp add: map_of_map_restrict restrict_map_def)

lemma apply_state:
  "fst (apply_expression_and_blink vmc e i b ck st al) k =
     (if k \<in> set BLEND_KEYS_TO_CLEAR
      then Some (dict_get (case st of None \<Rightarrow> zero_dict | Some s \<Rightarrow> s) k
             + (dict_get (blend_target e i b ck) k
                - dict_get (case st of None \<Rightarrow> zero_dict | Some s \<Rightarrow> s) k) * clamp01 al)
      else (case st of None \<Rightarrow> zero_dict | Some s \<Rightarrow> s) k)"
  unfolding apply_expression_and_blink_def Let_def
  by (simp add: case_prod_beta ease_keys_state[OF distinct_keys])

lemma clamp01_range: "0 \<le> clamp01 v \<and> clamp01 v \<le> 1"
  by (simp add: clamp01_def)

lemma clamp01_consts: "clamp01 0 = 0" "clamp01 1 = 1" "clamp01 (1/2) = 1/2"
  by (simp_all add: clamp01_def)


lemma blend_target_blink:
  "k \<in> set BLINK_KEYS \<Longrightarrow> blend_target e i b ck k = Some (clamp01 b)"
  by (simp add: blend_target_def Let_def blink_loop_lookup)

lemma preset_weights:
  "(n, v) \<in> set (preset_get e) \<Longrightarrow> v = 1"
  by (auto simp: preset_get_def EXPRESSION_PRESETS_def split: if_splits)

lemma preset_loop_range:
  "\<forall>(n, v) \<in> set ps. v = 1 \<Longrightarrow> 0 \<le> dict_get tg k \<and> dict_get tg k \<le> 1 \<Longrightarrow>
   0 \<le> dict_get (preset_loop ps i tg) k \<and> dict_get (preset_loop ps i tg) k \<le> 1"
proof (induction ps i tg rule: preset_loop.induct)
  case (1 i tg)
  then show ?case by simp
next
  case (2 name v ps i tg)
  from "2.prems"(1) have v: "v = 1" and ps: "\<forall>(n, v) \<in> set ps. v = 1"
    by simp_all
  have h: "0 \<le> dict_get (tg(name \<mapsto> v * clamp01 i)) k \<and> dict_get (tg(name \<mapsto> v * clamp01 i)) k \<le> 1"
    using "2.prems"(2) clamp01_range[of i] v by (simp add: dict_get_upd)
  show ?case
    unfolding preset_loop.simps by (rule "2.IH"[OF ps h])
qed

lemma zero_dict_get: "dict_get zero_dict k = 0"
  by (simp add: dict_get_def zero_dict_lookup)

lemma blend_target_range:
  "0 \<le> dict_get (blend_target e i b ck) k \<and> dict_get (blend_target e i b ck) k \<le> 1"
proof -
  have p: "\<forall>(n, v) \<in> set (preset_get e). v = 1"
    using preset_weights by auto
  have pl: "0 \<le> dict_get (preset_loop (preset_get e) i zero_dict) k
          \<and> dict_get (preset_loop (preset_get e) i zero_dict) k \<le> 1"
    by (rule preset_loop_range[OF p]) (simp add: zero_dict_get)
  show ?thesis
  proof (cases "k \<in> set BLINK_KEYS")
    case True
    then show ?thesis
      using clamp01_range[of b] by (simp add: blend_target_blink dict_get_def)
  next
    case False
    then show ?thesis
      using pl clamp01_range[of i]
      by (auto simp: blend_target_def Let_def blink_loop_lookup dict_get_def zero_dict_lookup
               split: option.splits)
  qed
qed

lemma blend_target_defined:
  assumes "k \<in> set BLEND_KEYS_TO_CLEAR"
  shows "\<exists>v. blend_target e i b ck k = Some v"
proof -
  have z: "\<exists>v. zero_dict k = Some v"
    using assms by (simp add: zero_dict_lookup)
  have p: "\<exists>v. preset_loop (preset_get e) i zero_dict k = Some v"
    using z by (rule preset_loop_dom)
  show ?thesis
  proof (cases ck)
    case None
    then show ?thesis
      using p by (simp add: blend_target_def Let_def blink_loop_lookup)
  next
    case (Some c)
    then show ?thesis
      using p z by (simp add: blend_target_def Let_def blink_loop_lookup)
  qed
qed

lemma convex_range:
  fixes p t a :: real
  assumes "0 \<le> p" "p \<le> 1" "0 \<le> t" "t \<le> 1" "0 \<le> a" "a \<le> 1"
  shows "0 \<le> p + (t - p) * a \<and> p + (t - p) * a \<le> 1"
proof -
  have e: "p + (t - p) * a = (1 - a) * p + a * t" by (simp add: algebra_simps)
  have "0 \<le> (1 - a) * p" "0 \<le> a * t" using assms by simp_all
  moreover have "(1 - a) * p \<le> 1 - a"
    using mult_left_mono[of p 1 "1 - a"] assms by simp
  moreover have "a * t \<le> a"
    using mult_left_mono[of t 1 a] assms by simp
  ultimately have "0 \<le> (1 - a) * p + a * t \<and> (1 - a) * p + a * t \<le> 1"
    by linarith
  then show ?thesis by (simp only: e)
qed

lemma blend_state_ok_iff:
  "blend_state_ok s \<longleftrightarrow> (\<forall>k \<in> set BLEND_KEYS_TO_CLEAR. \<exists>v. s k = Some v \<and> 0 \<le> v \<and> v \<le> 1)"
  by (auto simp: blend_state_ok_def list_all_iff split: option.splits)

lemma apply_preserves_ok:
  assumes "blend_state_ok s"
  shows "blend_state_ok (fst (apply_expression_and_blink vmc e i b ck (Some s) al))"
  unfolding blend_state_ok_iff
proof
  fix k assume k: "k \<in> set BLEND_KEYS_TO_CLEAR"
  from assms k obtain v where v: "s k = Some v" "0 \<le> v" "v \<le> 1"
    unfolding blend_state_ok_iff by blast
  then have g: "dict_get s k = v" by (simp add: dict_get_def)
  have "0 \<le> v + (dict_get (blend_target e i b ck) k - v) * clamp01 al
      \<and> v + (dict_get (blend_target e i b ck) k - v) * clamp01 al \<le> 1"
    using convex_range v blend_target_range clamp01_range by blast
  then show "\<exists>v. fst (apply_expression_and_blink vmc e i b ck (Some s) al) k = Some v \<and> 0 \<le> v \<and> v \<le> 1"
    using k by (simp add: apply_state g)
qed

lemma apply_dom:
  "dom (fst (apply_expression_and_blink vmc e i b ck (Some s) al)) = dom s \<union> set BLEND_KEYS_TO_CLEAR"
  by (auto simp: dom_def apply_state split: if_splits)

lemma zero_dict_ok: "blend_state_ok zero_dict"
  by (simp add: blend_state_ok_iff zero_dict_lookup)

lemma zero_dict_dom: "dom zero_dict = set BLEND_KEYS_TO_CLEAR"
  by (auto simp: dom_def zero_dict_lookup)

lemma run_calls_ok:
  "blend_state_ok s \<Longrightarrow> blend_state_ok (fst (run_calls vmc s cs))"
proof (induction cs arbitrary: vmc s)
  case Nil
  then show ?case by simp
next
  case (Cons c cs)
  obtain e i b ck al where c: "c = (e, i, b, ck, al)" by (cases c)
  obtain s' vmc' where r: "apply_expression_and_blink vmc e i b ck (Some s) al = (s', vmc')"
    by (cases "apply_expression_and_blink vmc e i b ck (Some s) al")
  have "blend_state_ok s'"
    using apply_preserves_ok[OF Cons.prems, of vmc e i b ck al] r by simp
  then show ?case using Cons.IH c r by simp
qed

lemma run_calls_dom:
  "dom (fst (run_calls vmc s cs)) = (if cs = [] then dom s else dom s \<union> set BLEND_KEYS_TO_CLEAR)"
proof (induction cs arbitrary: vmc s)
  case Nil
  then show ?case by simp
next
  case (Cons c cs)
  obtain e i b ck al where c: "c = (e, i, b, ck, al)" by (cases c)
  obtain s' vmc' where r: "apply_expression_and_blink vmc e i b ck (Some s) al = (s', vmc')"
    by (cases "apply_expression_and_blink vmc e i b ck (Some s) al")
  have "dom s' = dom s \<union> set BLEND_KEYS_TO_CLEAR"
    using apply_dom[of vmc e i b ck s al] r by simp
  then show ?case using Cons.IH[of vmc' s'] c r by auto
qed

lemma apply_None: "apply_expression_and_blink vmc e i b ck None al
     = apply_expression_and_blink vmc e i b ck (Some zero_dict) al"
  by (simp add: apply_expression_and_blink_def)

lemma blend_send_primary:
  "primary (client (VMCSender_blend vmc k v))
     = primary (client vmc) @ [(''/VMC/Ext/Blend/Val'', [OscStr k, OscFloat v])]"
  by (simp add: VMCSender_blend_def DualClient_send_def)

lemma ease_keys_msgs:
  "distinct keys \<Longrightarrow>
   primary (client (snd (ease_keys tg a keys (st, vmc)))) =
     primary (client vmc) @
     map (\<lambda>k. (''/VMC/Ext/Blend/Val'',
                [OscStr k, OscFloat (dict_get st k + (dict_get tg k - dict_get st k) * a)])) keys"
proof (induction keys arbitrary: st vmc)
  case Nil
  then show ?case by simp
next
  case (Cons key keys)
  then show ?case by (auto simp: Let_def dict_get_upd blend_send_primary)
qed

lemma apply_msgs:
  "primary (client (snd (apply_expression_and_blink vmc e i b ck st al))) =
     primary (client vmc) @
     map (\<lambda>k. (''/VMC/Ext/Blend/Val'',
                [OscStr k,
                 OscFloat (dict_get (case st of None \<Rightarrow> zero_dict | Some s \<Rightarrow> s) k
                   + (dict_get (blend_target e i b ck) k
                      - dict_get (case st of None \<Rightarrow> zero_dict | Some s \<Rightarrow> s) k) * clamp01 al)]))
       BLEND_KEYS_TO_CLEAR
     @ [(''/VMC/Ext/Blend/Apply'', [])]"
  unfolding apply_expression_and_blink_def Let_def
  by (simp add: case_prod_beta ease_keys_msgs[OF distinct_keys]
        VMCSender_apply_def DualClient_send_def)

lemma custom_target:
  "ck \<noteq> [] \<Longrightarrow> blend_target e i b (Some ck) k =
     (if k \<in> set BLINK_KEYS then Some (clamp01 b)
      else if k = ck then Some (clamp01 i) else zero_dict k)"
  by (simp add: blend_target_def Let_def blink_loop_lookup)

lemma custom_eased:
  assumes "ck \<noteq> []" "ck \<notin> set BLEND_KEYS_TO_CLEAR" "k \<in> set BLEND_KEYS_TO_CLEAR"
  shows "dict_get zero_dict k + (dict_get (blend_target e i b (Some ck)) k - dict_get zero_dict k) * clamp01 1
     = (if k \<in> set BLINK_KEYS then clamp01 b else 0)"
proof -
  have "k \<noteq> ck" using assms by blast
  then show ?thesis
    using assms(1) by (simp add: custom_target dict_get_def zero_dict_lookup clamp01_consts)
qed


lemma custom_state:
  assumes "ck \<noteq> []" "ck \<notin> set BLEND_KEYS_TO_CLEAR" "k \<in> set BLEND_KEYS_TO_CLEAR"
  shows "fst (apply_expression_and_blink vmc e i b (Some ck) None 1) k
     = Some (if k \<in> set BLINK_KEYS then clamp01 b else 0)"
  using assms(3) custom_eased[OF assms, of e i b] by (simp add: apply_state)

lemma no_override:
  "ck = None \<or> ck = Some [] \<Longrightarrow>
   blend_target e i b ck = blink_loop BLINK_KEYS (clamp01 b) (preset_loop (preset_get e) i zero_dict)"
  by (auto simp: blend_target_def Let_def)

lemma happy_target:
  assumes "ck = None \<or> ck = Some []"
  shows "blend_target ''happy'' 1 0 ck k =
     (if k \<in> set BLINK_KEYS then Some 0
      else if k = ''happy'' then Some 1 else if k = ''Joy'' then Some 1 else zero_dict k)"
  by (simp add: no_override[OF assms] blink_loop_lookup preset_get_def EXPRESSION_PRESETS_def
        clamp01_def)

lemma neutral_get: "preset_get ''neutral'' = []"
  by (simp add: preset_get_def EXPRESSION_PRESETS_def)

lemma unknown_get: "map_of EXPRESSION_PRESETS e = None \<Longrightarrow> preset_get e = []"
  by (simp add: preset_get_def)



lemma keys_length: "length BLEND_KEYS_TO_CLEAR = 18"
  by (simp add: BLEND_KEYS_TO_CLEAR_def)

section \<open>The claims\<close>

text \<open>
  Claim C7. The quaternion builder is a function of its three arguments, maps the zero
  angles to the identity quaternion \<open>(0, 0, 0, 1)\<close>, and its result has norm one for all
  angles.
\<close>

theorem C7_quat_unit_norm:
  "quat_from_euler_xyz 0 0 0 = (0, 0, 0, 1)
   \<and> quat_norm2 (quat_from_euler_xyz rx ry rz) = 1"
proof
  show "quat_from_euler_xyz 0 0 0 = (0, 0, 0, 1)"
    by (simp add: quat_from_euler_xyz_def)
  show "quat_norm2 (quat_from_euler_xyz rx ry rz) = 1"
    unfolding quat_from_euler_xyz_def Let_def quat_norm2.simps
    by (rule quat_norm2_expand) simp_all
qed

text \<open>
  Claim C1, evaluated on the code. With the explicit key \<open>MyCustomBlend\<close>, intensity
  \<open>0.5\<close> and \<open>alpha = 1\<close>, called without a prior state: the target dictionary holds
  \<open>MyCustomBlend = 0.5\<close>, but the easing loop runs over \<^verbatim>\<open>BLEND_KEYS_TO_CLEAR\<close> only, so
  the returned state has no entry \<open>MyCustomBlend\<close> and no \<^verbatim>\<open>/VMC/Ext/Blend/Val\<close> message
  carries that name: the messages sent are one per recognized key, zero for every preset
  key, followed by the apply message. The ten preset keys are 0 in the returned state.
\<close>

theorem C1_custom_key_dropped:
  "blend_target e (1/2) b (Some ''MyCustomBlend'') ''MyCustomBlend'' = Some (1/2)
   \<and> fst (apply_expression_and_blink vmc e (1/2) b (Some ''MyCustomBlend'') None 1) ''MyCustomBlend'' = None
   \<and> map (fst (apply_expression_and_blink vmc e (1/2) b (Some ''MyCustomBlend'') None 1))
        [''Joy'', ''happy'', ''Angry'', ''angry'', ''Sorrow'', ''sad'', ''Fun'', ''relaxed'',
         ''Surprised'', ''surprised'']
      = [Some 0, Some 0, Some 0, Some 0, Some 0, Some 0, Some 0, Some 0, Some 0, Some 0]
   \<and> primary (client (snd (apply_expression_and_blink \<lparr>client = \<lparr>primary = [], mirror = None\<rparr>\<rparr>
        e (1/2) b (Some ''MyCustomBlend'') None 1)))
     = map (\<lambda>k. (''/VMC/Ext/Blend/Val'',
                  [OscStr k, OscFloat (if k \<in> set BLINK_KEYS then clamp01 b else 0)]))
         BLEND_KEYS_TO_CLEAR
       @ [(''/VMC/Ext/Blend/Apply'', [])]
   \<and> ''MyCustomBlend'' \<notin> set BLEND_KEYS_TO_CLEAR"
proof -
  have 4: "''MyCustomBlend'' \<notin> set BLEND_KEYS_TO_CLEAR"
    by (simp add: BLEND_KEYS_TO_CLEAR_def)
  have n: "''MyCustomBlend'' \<noteq> []" by simp
  have 1: "blend_target e (1/2) b (Some ''MyCustomBlend'') ''MyCustomBlend'' = Some (1/2)"
    by (simp add: custom_target[OF n] BLINK_KEYS_def clamp01_consts)
  have 2: "fst (apply_expression_and_blink vmc e (1/2) b (Some ''MyCustomBlend'') None 1) ''MyCustomBlend'' = None"
    using 4 by (simp add: apply_state zero_dict_lookup)
  have p: "k \<in> set [''Joy'', ''happy'', ''Angry'', ''angry'', ''Sorrow'', ''sad'', ''Fun'', ''relaxed'',
         ''Surprised'', ''surprised''] \<Longrightarrow> k \<in> set BLEND_KEYS_TO_CLEAR \<and> k \<notin> set BLINK_KEYS" for k
    by (auto simp: BLEND_KEYS_TO_CLEAR_def BLINK_KEYS_def)
  have "fst (apply_expression_and_blink vmc e (1/2) b (Some ''MyCustomBlend'') None 1) k = Some 0"
    if "k \<in> set [''Joy'', ''happy'', ''Angry'', ''angry'', ''Sorrow'', ''sad'', ''Fun'', ''relaxed'',
         ''Surprised'', ''surprised'']" for k
    using p[OF that] custom_state[OF n 4, of k vmc e "1/2" b] by simp
  then have 3: "map (fst (apply_expression_and_blink vmc e (1/2) b (Some ''MyCustomBlend'') None 1))
        [''Joy'', ''happy'', ''Angry'', ''angry'', ''Sorrow'', ''sad'', ''Fun'', ''relaxed'',
         ''Surprised'', ''surprised'']
      = [Some 0, Some 0, Some 0, Some 0, Some 0, Some 0, Some 0, Some 0, Some 0, Some 0]"
    by simp
  have 5: "primary (client (snd (apply_expression_and_blink \<lparr>client = \<lparr>primary = [], mirror = None\<rparr>\<rparr>
        e (1/2) b (Some ''MyCustomBlend'') None 1)))
     = map (\<lambda>k. (''/VMC/Ext/Blend/Val'',
                  [OscStr k, OscFloat (if k \<in> set BLINK_KEYS then clamp01 b else 0)]))
         BLEND_KEYS_TO_CLEAR
       @ [(''/VMC/Ext/Blend/Apply'', [])]"
    unfolding apply_msgs
    using custom_eased[OF n 4, of _ e "1/2" b] by simp
  show ?thesis by (intro conjI 1 2 3 4 5)
qed

text \<open>
  Claim C2, refuted as stated: at \<open>t = 0\<close> the phase is 0, so the triangular pulse
  \<open>1 - |2 * 0 / 0.11 - 1|\<close> is 0 and not 1.
\<close>

theorem C2_blink_at_zero_counterexample: "compute_blink 0 \<noteq> 1"
  by (simp add: compute_blink_def py_fmod_def)

text \<open>
  Claim C2, amended. The blink oscillator is 0 at \<open>t = 0\<close>, reaches its peak 1 at the
  midpoint \<open>t = 0.055\<close> of the pulse, is 0 at \<open>t = 0.11\<close>, and has the same value at
  \<open>3.2\<close> as at 0. For every \<open>t\<close> the output lies in \<open>[0, 1]\<close>, the phase
  \<open>t mod 3.2\<close> lies in \<open>[0, 3.2)\<close>, the output is \<open>1 - |2 * phase / 0.11 - 1|\<close> when
  the phase is below \<open>0.11\<close> and 0 otherwise, and the output has period \<open>3.2\<close>.
\<close>

theorem C2_blink_amended:
  "compute_blink 0 = 0 \<and> compute_blink 0.055 = 1 \<and> compute_blink 0.11 = 0
   \<and> compute_blink 3.2 = compute_blink 0
   \<and> 0 \<le> compute_blink t \<and> compute_blink t \<le> 1
   \<and> 0 \<le> py_fmod t 3.2 \<and> py_fmod t 3.2 < 3.2
   \<and> compute_blink t =
       (if py_fmod t 3.2 < 0.11 then 1 - \<bar>2 * py_fmod t 3.2 / 0.11 - 1\<bar> else 0)
   \<and> compute_blink (t + 3.2) = compute_blink t"
proof -
  have r: "0 \<le> py_fmod t 3.2 \<and> py_fmod t 3.2 < 3.2"
    by (rule py_fmod_range) simp
  have e: "py_fmod t 3.2 / 0.11 * 2 = 2 * py_fmod t 3.2 / 0.11"
    by (simp only: times_divide_eq_left mult.commute)
  have f: "compute_blink t =
       (if py_fmod t 3.2 < 0.11 then 1 - \<bar>2 * py_fmod t 3.2 / 0.11 - 1\<bar> else 0)"
    unfolding compute_blink_def Let_def e ..
  show ?thesis
    by (intro conjI compute_blink_at_0 compute_blink_at_mid compute_blink_at_width
          compute_blink_at_period conjunct1[OF compute_blink_range]
          conjunct2[OF compute_blink_range] conjunct1[OF r] conjunct2[OF r] f
          compute_blink_periodic)
qed





text \<open>
  Claim C5. With expression \<open>happy\<close>, intensity 1, \<open>alpha = 1\<close>, blink weight 0 and no
  explicit key (absent or empty), the returned state has \<open>Joy = 1\<close> and \<open>happy = 1\<close> and
  every other recognized key 0, for every prior state; without a prior state the returned
  dictionary is the initial one with \<open>Joy\<close> and \<open>happy\<close> set to 1.
\<close>

theorem C5_happy_scenario:
  "ck = None \<or> ck = Some [] \<Longrightarrow>
     fst (apply_expression_and_blink vmc ''happy'' 1 0 ck st 1) ''Joy'' = Some 1
     \<and> fst (apply_expression_and_blink vmc ''happy'' 1 0 ck st 1) ''happy'' = Some 1
     \<and> (\<forall>k \<in> set BLEND_KEYS_TO_CLEAR. k \<noteq> ''Joy'' \<and> k \<noteq> ''happy'' \<longrightarrow>
           fst (apply_expression_and_blink vmc ''happy'' 1 0 ck st 1) k = Some 0)
     \<and> fst (apply_expression_and_blink vmc ''happy'' 1 0 ck None 1)
         = zero_dict(''Joy'' \<mapsto> 1, ''happy'' \<mapsto> 1)"
proof -
  assume ck: "ck = None \<or> ck = Some []"
  have r: "fst (apply_expression_and_blink vmc ''happy'' 1 0 ck st' 1) k
        = blend_target ''happy'' 1 0 ck k" if "k \<in> set BLEND_KEYS_TO_CLEAR" for k st'
    using that blend_target_defined[OF that, of "''happy''" 1 0 ck]
    by (auto simp: apply_state clamp01_consts dict_get_def)
  have j: "''Joy'' \<in> set BLEND_KEYS_TO_CLEAR" "''happy'' \<in> set BLEND_KEYS_TO_CLEAR"
    "''Joy'' \<notin> set BLINK_KEYS" "''happy'' \<notin> set BLINK_KEYS"
    by (simp_all add: BLEND_KEYS_TO_CLEAR_def BLINK_KEYS_def)
  have 1: "fst (apply_expression_and_blink vmc ''happy'' 1 0 ck st 1) ''Joy'' = Some 1"
    using j by (simp add: r happy_target[OF ck])
  have 2: "fst (apply_expression_and_blink vmc ''happy'' 1 0 ck st 1) ''happy'' = Some 1"
    using j by (simp add: r happy_target[OF ck])
  have 3: "\<forall>k \<in> set BLEND_KEYS_TO_CLEAR. k \<noteq> ''Joy'' \<and> k \<noteq> ''happy'' \<longrightarrow>
           fst (apply_expression_and_blink vmc ''happy'' 1 0 ck st 1) k = Some 0"
    by (simp add: r happy_target[OF ck] zero_dict_lookup)
  have 4: "fst (apply_expression_and_blink vmc ''happy'' 1 0 ck None 1)
         = zero_dict(''Joy'' \<mapsto> 1, ''happy'' \<mapsto> 1)"
  proof
    fix k
    show "fst (apply_expression_and_blink vmc ''happy'' 1 0 ck None 1) k
         = (zero_dict(''Joy'' \<mapsto> 1, ''happy'' \<mapsto> 1)) k"
    proof (cases "k \<in> set BLEND_KEYS_TO_CLEAR")
      case True
      then show ?thesis
        using j by (auto simp: r happy_target[OF ck] zero_dict_lookup)
    next
      case False
      then show ?thesis using j by (auto simp: apply_state)
    qed
  qed
  show ?thesis using 1 2 3 4 by blast
qed

text \<open>Witness for C5: no explicit key and no prior state.\<close>

theorem C5_happy_scenario_witness:
  "((None::string option) = None \<or> (None::string option) = Some [])
   \<and> fst (apply_expression_and_blink \<lparr>client = \<lparr>primary = [], mirror = None\<rparr>\<rparr>
            ''happy'' 1 0 None None 1) ''Joy'' = Some 1
   \<and> fst (apply_expression_and_blink \<lparr>client = \<lparr>primary = [], mirror = None\<rparr>\<rparr>
            ''happy'' 1 0 None None 1) ''happy'' = Some 1
   \<and> fst (apply_expression_and_blink \<lparr>client = \<lparr>primary = [], mirror = None\<rparr>\<rparr>
            ''happy'' 1 0 None None 1) ''Sorrow'' = Some 0
   \<and> fst (apply_expression_and_blink \<lparr>client = \<lparr>primary = [], mirror = None\<rparr>\<rparr>
            ''happy'' 1 0 None None 1) ''Blink'' = Some 0"
proof -
  have h: "(None::string option) = None \<or> (None::string option) = Some []" by simp
  have m: "''Sorrow'' \<in> set BLEND_KEYS_TO_CLEAR" "''Blink'' \<in> set BLEND_KEYS_TO_CLEAR"
    by (simp_all add: BLEND_KEYS_TO_CLEAR_def)
  show ?thesis
    using m C5_happy_scenario[OF h, of "\<lparr>client = \<lparr>primary = [], mirror = None\<rparr>\<rparr>" None]
    by (simp add: zero_dict_lookup)
qed

text \<open>
  Claim C6. For an expression name that is not a key of \<^verbatim>\<open>EXPRESSION_PRESETS\<close> and no
  explicit key (absent or empty), the call returns as it does for \<open>neutral\<close>: the
  target, the returned state and the messages sent are the same, for all other arguments.
  The target of every recognized key outside the blink keys is 0, and with blink weight 0
  and \<open>alpha = 1\<close> every recognized key of the returned state is 0. The function has no
  failing branch: the preset is read with \<^verbatim>\<open>.get(expr, [])\<close>.
\<close>

theorem C6_unknown_preset_neutral:
  "map_of EXPRESSION_PRESETS e = None \<Longrightarrow> ck = None \<or> ck = Some [] \<Longrightarrow>
     blend_target e i b ck = blend_target ''neutral'' i b ck
     \<and> apply_expression_and_blink vmc e i b ck st al
         = apply_expression_and_blink vmc ''neutral'' i b ck st al
     \<and> (\<forall>k \<in> set BLEND_KEYS_TO_CLEAR. k \<notin> set BLINK_KEYS \<longrightarrow> blend_target e i b ck k = Some 0)
     \<and> (\<forall>k \<in> set BLEND_KEYS_TO_CLEAR.
           fst (apply_expression_and_blink vmc e i 0 ck st 1) k = Some 0)"
proof -
  assume u: "map_of EXPRESSION_PRESETS e = None" and ck: "ck = None \<or> ck = Some []"
  have t: "blend_target e i' b' ck = blink_loop BLINK_KEYS (clamp01 b') zero_dict" for i' b'
    by (simp add: no_override[OF ck] unknown_get[OF u])
  have n: "blend_target ''neutral'' i b ck = blink_loop BLINK_KEYS (clamp01 b) zero_dict"
    by (simp add: no_override[OF ck] neutral_get)
  have 1: "blend_target e i b ck = blend_target ''neutral'' i b ck"
    by (simp only: t n)
  have 2: "apply_expression_and_blink vmc e i b ck st al
         = apply_expression_and_blink vmc ''neutral'' i b ck st al"
    by (simp only: apply_expression_and_blink_def 1)
  have 3: "\<forall>k \<in> set BLEND_KEYS_TO_CLEAR. k \<notin> set BLINK_KEYS \<longrightarrow> blend_target e i b ck k = Some 0"
    by (simp add: t blink_loop_lookup zero_dict_lookup)
  have 4: "\<forall>k \<in> set BLEND_KEYS_TO_CLEAR.
           fst (apply_expression_and_blink vmc e i 0 ck st 1) k = Some 0"
    by (simp add: apply_state t blink_loop_lookup zero_dict_lookup clamp01_consts dict_get_def)
  show ?thesis by (intro conjI 1 2 3 4)
qed

text \<open>
  Witness for C6: the unknown expression name \<open>confused\<close>, no explicit key, no prior
  state.
\<close>

theorem C6_unknown_preset_neutral_witness:
  "map_of EXPRESSION_PRESETS ''confused'' = None
   \<and> ((None::string option) = None \<or> (None::string option) = Some [])
   \<and> apply_expression_and_blink \<lparr>client = \<lparr>primary = [], mirror = None\<rparr>\<rparr>
        ''confused'' 1 0 None None 1
      = apply_expression_and_blink \<lparr>client = \<lparr>primary = [], mirror = None\<rparr>\<rparr>
        ''neutral'' 1 0 None None 1
   \<and> fst (apply_expression_and_blink \<lparr>client = \<lparr>primary = [], mirror = None\<rparr>\<rparr>
        ''confused'' 1 0 None None 1) ''Joy'' = Some 0"
proof -
  have u: "map_of EXPRESSION_PRESETS ''confused'' = None"
    by (simp add: EXPRESSION_PRESETS_def)
  have h: "(None::string option) = None \<or> (None::string option) = Some []" by simp
  have m: "''Joy'' \<in> set BLEND_KEYS_TO_CLEAR"
    by (simp add: BLEND_KEYS_TO_CLEAR_def)
  note T = C6_unknown_preset_neutral[OF u h, of 1 0
        "\<lparr>client = \<lparr>primary = [], mirror = None\<rparr>\<rparr>" None 1]
  have a: "apply_expression_and_blink \<lparr>client = \<lparr>primary = [], mirror = None\<rparr>\<rparr>
        ''confused'' 1 0 None None 1
      = apply_expression_and_blink \<lparr>client = \<lparr>primary = [], mirror = None\<rparr>\<rparr>
        ''neutral'' 1 0 None None 1"
    by (rule conjunct1[OF conjunct2[OF T]])
  have j: "fst (apply_expression_and_blink \<lparr>client = \<lparr>primary = [], mirror = None\<rparr>\<rparr>
        ''confused'' 1 0 None None 1) ''Joy'' = Some 0"
    by (rule bspec[OF conjunct2[OF conjunct2[OF conjunct2[OF T]]] m])
  show ?thesis by (intro conjI u h a j)
qed

text \<open>
  Claim C8. For every \<open>t\<close> and every strength \<open>s\<close>, negative ones included, the idle
  pose is \<open>root_y = 0.01 * s * sin (1.30 * t)\<close>, \<open>pitch = 0.10 * s * sin (1.10 * t)\<close>,
  \<open>yaw = 0.14 * s * sin (0.75 * t)\<close>, \<open>roll = 0.06 * s * sin (0.50 * t)\<close>. Strength 0
  gives four zeros, doubling the strength doubles every field, and negating the strength
  negates every field.
\<close>

theorem C8_idle_pose:
  "compute_idle_pose t s =
     (0.01 * s * sin (1.30 * t), 0.10 * s * sin (1.10 * t),
      0.14 * s * sin (0.75 * t), 0.06 * s * sin (0.50 * t))
   \<and> compute_idle_pose t 0 = (0, 0, 0, 0)
   \<and> compute_idle_pose t (2 * s) =
       (case compute_idle_pose t s of (y, p, w, r) \<Rightarrow> (2 * y, 2 * p, 2 * w, 2 * r))
   \<and> compute_idle_pose t (- s) =
       (case compute_idle_pose t s of (y, p, w, r) \<Rightarrow> (- y, - p, - w, - r))"
  by (simp add: compute_idle_pose_def mult.commute)




text \<open>
  Claim C10. The initial state holds exactly the 18 recognized keys, each with value 0.
  A call without a prior state is the call on the initial state. After any sequence of
  calls with arbitrary arguments, starting from the initial state, the state holds exactly
  the recognized keys, each with a value in \<open>[0, 1]\<close>. More generally a call, or a
  sequence of calls, on a state whose recognized keys are present with values in
  \<open>[0, 1]\<close> returns such a state and removes no key.
\<close>

theorem C10_blend_state_invariant:
  "length BLEND_KEYS_TO_CLEAR = 18 \<and> distinct BLEND_KEYS_TO_CLEAR
   \<and> dom zero_dict = set BLEND_KEYS_TO_CLEAR \<and> blend_state_ok zero_dict
   \<and> apply_expression_and_blink vmc e i b ck None al
       = apply_expression_and_blink vmc e i b ck (Some zero_dict) al
   \<and> blend_state_ok (fst (apply_expression_and_blink vmc e i b ck None al))
   \<and> blend_state_ok (fst (run_calls vmc zero_dict cs))
   \<and> dom (fst (run_calls vmc zero_dict cs)) = set BLEND_KEYS_TO_CLEAR
   \<and> (blend_state_ok s \<longrightarrow>
        blend_state_ok (fst (apply_expression_and_blink vmc e i b ck (Some s) al))
        \<and> dom s \<subseteq> dom (fst (apply_expression_and_blink vmc e i b ck (Some s) al))
        \<and> blend_state_ok (fst (run_calls vmc s cs))
        \<and> dom s \<subseteq> dom (fst (run_calls vmc s cs)))"
proof -
  have 5: "apply_expression_and_blink vmc e i b ck None al
       = apply_expression_and_blink vmc e i b ck (Some zero_dict) al"
    by (rule apply_None)
  have 6: "blend_state_ok (fst (apply_expression_and_blink vmc e i b ck None al))"
    unfolding 5 using zero_dict_ok by (rule apply_preserves_ok)
  have 7: "blend_state_ok (fst (run_calls vmc zero_dict cs))"
    using zero_dict_ok by (rule run_calls_ok)
  have 8: "dom (fst (run_calls vmc zero_dict cs)) = set BLEND_KEYS_TO_CLEAR"
    by (simp add: run_calls_dom zero_dict_dom)
  have 9: "blend_state_ok s \<longrightarrow>
        blend_state_ok (fst (apply_expression_and_blink vmc e i b ck (Some s) al))
        \<and> dom s \<subseteq> dom (fst (apply_expression_and_blink vmc e i b ck (Some s) al))
        \<and> blend_state_ok (fst (run_calls vmc s cs))
        \<and> dom s \<subseteq> dom (fst (run_calls vmc s cs))"
  proof
    assume ok: "blend_state_ok s"
    have a: "blend_state_ok (fst (apply_expression_and_blink vmc e i b ck (Some s) al))"
      using ok by (rule apply_preserves_ok)
    have b: "dom s \<subseteq> dom (fst (apply_expression_and_blink vmc e i b ck (Some s) al))"
      by (simp add: apply_dom)
    have c: "blend_state_ok (fst (run_calls vmc s cs))"
      using ok by (rule run_calls_ok)
    have d: "dom s \<subseteq> dom (fst (run_calls vmc s cs))"
      by (simp add: run_calls_dom)
    show "blend_state_ok (fst (apply_expression_and_blink vmc e i b ck (Some s) al))
        \<and> dom s \<subseteq> dom (fst (apply_expression_and_blink vmc e i b ck (Some s) al))
        \<and> blend_state_ok (fst (run_calls vmc s cs))
        \<and> dom s \<subseteq> dom (fst (run_calls vmc s cs))"
      by (intro conjI a b c d)
  qed
  show ?thesis
    by (intro conjI keys_length distinct_keys zero_dict_dom zero_dict_ok 5 6 7 8 9)
qed

text \<open>
  Witness for C10: a prior state with \<open>Joy = 0.5\<close>; one call, and a sequence of two
  calls, with arguments outside \<open>[0, 1]\<close>.
\<close>

theorem C10_blend_state_invariant_witness:
  "blend_state_ok (zero_dict(''Joy'' \<mapsto> 1/2))
   \<and> blend_state_ok (fst (apply_expression_and_blink \<lparr>client = \<lparr>primary = [], mirror = None\<rparr>\<rparr>
        ''sad'' 7 (- 3) (Some ''Blink'') (Some (zero_dict(''Joy'' \<mapsto> 1/2))) (1/3)))
   \<and> blend_state_ok (fst (run_calls \<lparr>client = \<lparr>primary = [], mirror = None\<rparr>\<rparr>
        (zero_dict(''Joy'' \<mapsto> 1/2))
        [(''happy'', 1, 1/2, None, 1/4), (''nope'', - 1, 2, Some ''MyCustomBlend'', 5)]))"
proof -
  have h: "blend_state_ok (zero_dict(''Joy'' \<mapsto> 1/2))"
    by (simp add: blend_state_ok_def zero_dict_def BLEND_KEYS_TO_CLEAR_def)
  note T = C10_blend_state_invariant[of "\<lparr>client = \<lparr>primary = [], mirror = None\<rparr>\<rparr>"
      "''sad''" 7 "- 3" "Some ''Blink''" "1/3"
      "[(''happy'', 1, 1/2, None, 1/4), (''nope'', - 1, 2, Some ''MyCustomBlend'', 5)]"
      "zero_dict(''Joy'' \<mapsto> 1/2)"]
  show ?thesis using h T by blast
qed

end
